theory Spec2Isabelle
  imports Complex_Main
begin

section \<open>Floating-point values and series\<close>

text \<open>
  The analyser computes on pandas float64 series. A float64 value denotes a real number, one
  of the two infinities, or NaN, which pandas also uses for an absent entry; the two zeros
  are not told apart. Comparison, negation, maximum and clipping are exact on floats and
  are defined here: a comparison with NaN is false. Every operation that rounds belongs to
  the numeric library below.
\<close>

datatype fl = Fin real | PInf | NInf | NaN

fun fl_neg :: "fl \<Rightarrow> fl" where
  "fl_neg (Fin a) = Fin (- a)"
| "fl_neg PInf = NInf"
| "fl_neg NInf = PInf"
| "fl_neg NaN = NaN"

fun fl_less :: "fl \<Rightarrow> fl \<Rightarrow> bool" where
  "fl_less NaN _ = False"
| "fl_less _ NaN = False"
| "fl_less (Fin a) (Fin b) = (a < b)"
| "fl_less NInf NInf = False"
| "fl_less NInf _ = True"
| "fl_less _ NInf = False"
| "fl_less PInf _ = False"
| "fl_less _ PInf = True"

fun fl_le :: "fl \<Rightarrow> fl \<Rightarrow> bool" where
  "fl_le NaN _ = False"
| "fl_le _ NaN = False"
| "fl_le a b = (a = b \<or> fl_less a b)"

definition fl_gt :: "fl \<Rightarrow> fl \<Rightarrow> bool" where
  "fl_gt a b = fl_less b a"

type_synonym series = "fl list"

text \<open>\<open>Series.dropna()\<close>: the defined entries, in order.\<close>

definition dropna :: "series \<Rightarrow> series" where
  "dropna xs = filter (\<lambda>x. x \<noteq> NaN) xs"

text \<open>
  The numeric library is a parameter of the model: float64 addition, subtraction and
  division, which round, and the pandas kernels \<open>Series.ewm(alpha=a, min_periods=m,
  adjust=False).mean()\<close>, \<open>Series.ewm(span=n, adjust=False).mean()\<close> and
  \<open>Series.rolling(window=w).mean()\<close>, whose results depend on the order and the rounding
  of pandas' own sums. Nothing is assumed of them but what a statement says.
\<close>

record numlib =
  fadd :: "fl \<Rightarrow> fl \<Rightarrow> fl"
  fsub :: "fl \<Rightarrow> fl \<Rightarrow> fl"
  fdiv :: "fl \<Rightarrow> fl \<Rightarrow> fl"
  ewm_mean_alpha :: "fl \<Rightarrow> nat \<Rightarrow> series \<Rightarrow> series"
  ewm_mean_span :: "int \<Rightarrow> series \<Rightarrow> series"
  rolling_mean :: "nat \<Rightarrow> series \<Rightarrow> series"

section \<open>Verdicts\<close>

text \<open>
  The source encodes the status as an emoji string: the check mark is \<open>Pass\<close>, the
  warning sign is \<open>Warn\<close> and the cross is \<open>Fail\<close>. A message is an f-string: literal
  text, a float printed with two decimals, or the text of a caught exception.
\<close>

datatype status = Pass | Warn | Fail

datatype error =
    KeyError string
  | IndexError
  | ValueError
  | ZeroDivisionError
  | AttributeError
  | LibraryError string

datatype part = Lit string | Fmt2 fl | Exc error

datatype payload =
    NoValue
  | Scalar fl
  | Fields "(string \<times> fl) list"
  | TextValue "string option"

record verdict =
  status :: status
  message :: "part list"
  val :: payload

section \<open>Data frames and the pandas operations the analyser uses\<close>

text \<open>
  A bar table is a pandas DataFrame: a number of rows (the length of its date index) and
  named columns, each a series over that index. \<open>pd.DataFrame()\<close> has no rows and no
  columns.
\<close>

record dataframe =
  nrows :: nat
  cols :: "(string \<times> series) list"

definition has_column :: "dataframe \<Rightarrow> string \<Rightarrow> bool" where
  "has_column df name = (map_of (cols df) name \<noteq> None)"

text \<open>\<open>df[name]\<close> raises KeyError when the column is missing.\<close>

definition getitem :: "dataframe \<Rightarrow> string \<Rightarrow> error + series" where
  "getitem df name =
     (case map_of (cols df) name of None \<Rightarrow> Inl (KeyError name) | Some s \<Rightarrow> Inr s)"

text \<open>\<open>df.empty\<close>: one of the two axes has length zero.\<close>

definition df_empty :: "dataframe \<Rightarrow> bool" where
  "df_empty df = (nrows df = 0 \<or> cols df = [])"

text \<open>Assignment to a dictionary key: an existing key keeps its place, a new one is appended.\<close>

fun dict_set :: "('k \<times> 'v) list \<Rightarrow> 'k \<Rightarrow> 'v \<Rightarrow> ('k \<times> 'v) list" where
  "dict_set [] k v = [(k, v)]"
| "dict_set ((k', v') # d) k v = (if k' = k then (k, v) # d else (k', v') # dict_set d k v)"

text \<open>
  \<open>df[name] = s\<close> aligns the series with the frame's index. The analyser assigns either a
  series computed from a column of the same frame, stored as it is, or an empty series,
  which leaves every row absent.
\<close>

definition set_column :: "dataframe \<Rightarrow> string \<Rightarrow> series \<Rightarrow> dataframe" where
  "set_column df name s =
     df\<lparr>cols := dict_set (cols df) name (if s = [] then replicate (nrows df) NaN else s)\<rparr>"

definition bind_err :: "error + 'a \<Rightarrow> ('a \<Rightarrow> error + 'b) \<Rightarrow> error + 'b" where
  "bind_err m f = (case m of Inl e \<Rightarrow> Inl e | Inr x \<Rightarrow> f x)"

definition map2 :: "('a \<Rightarrow> 'b \<Rightarrow> 'c) \<Rightarrow> 'a list \<Rightarrow> 'b list \<Rightarrow> 'c list" where
  "map2 f xs ys = map (\<lambda>(x, y). f x y) (zip xs ys)"

text \<open>\<open>Series.diff()\<close>: the first entry is absent, every later entry is the difference to its predecessor.\<close>

fun diff :: "numlib \<Rightarrow> series \<Rightarrow> series" where
  "diff L [] = []"
| "diff L (x # xs) = NaN # map2 (fsub L) xs (x # xs)"

definition clip_lower :: "fl \<Rightarrow> fl \<Rightarrow> fl" where
  "clip_lower lo x = (if fl_less x lo then lo else x)"

definition clip_upper :: "fl \<Rightarrow> fl \<Rightarrow> fl" where
  "clip_upper hi x = (if fl_less hi x then hi else x)"

text \<open>\<open>Series.ewm(span=n, adjust=False).mean()\<close>; pandas rejects a span below 1.\<close>

definition ewm_span :: "numlib \<Rightarrow> int \<Rightarrow> series \<Rightarrow> error + series" where
  "ewm_span L n xs = (if n < 1 then Inl ValueError else Inr (ewm_mean_span L n xs))"

text \<open>
  \<open>Series.rolling(window=w)\<close> with an aggregate of the window: entry \<open>i\<close> aggregates the
  \<open>w\<close> entries ending at \<open>i\<close> and is absent while fewer than \<open>w\<close> defined entries are in the
  window. The analyser's \<open>rolling(window=30).max()\<close> is this with the maximum, which does
  not round.
\<close>

definition rolling :: "(series \<Rightarrow> fl) \<Rightarrow> nat \<Rightarrow> series \<Rightarrow> series" where
  "rolling agg w xs =
     map (\<lambda>i. if i + 1 < w then NaN
              else (let win = take w (drop (i + 1 - w) xs)
                    in if NaN \<in> set win then NaN else agg win))
         [0..<length xs]"

definition fl_max :: "fl \<Rightarrow> fl \<Rightarrow> fl" where
  "fl_max a b = (if fl_less a b then b else a)"

fun fl_maximum :: "series \<Rightarrow> fl" where
  "fl_maximum [] = NaN"
| "fl_maximum (x # xs) = foldl fl_max x xs"

text \<open>\<open>Series.shift(1)\<close>: every entry moves one row down, the first row becomes absent.\<close>

definition shift1 :: "series \<Rightarrow> series" where
  "shift1 xs = (if xs = [] then [] else NaN # butlast xs)"

text \<open>\<open>s.iloc[-k]\<close> for \<open>k = 1, 2\<close>: IndexError when the series is shorter than \<open>k\<close>.\<close>

definition iloc_back :: "series \<Rightarrow> nat \<Rightarrow> error + fl" where
  "iloc_back xs k = (if length xs < k then Inl IndexError else Inr (xs ! (length xs - k)))"

section \<open>Indicator library\<close>

definition calculate_rsi :: "numlib \<Rightarrow> dataframe \<Rightarrow> int \<Rightarrow> error + series" where
  "calculate_rsi L df period =
     (if \<not> has_column df ''Close'' \<or> int (nrows df) < period then Inr []
      else bind_err (getitem df ''Close'') (\<lambda>close.
        let delta = diff L close;
            gain = map (clip_lower (Fin 0)) delta;
            loss = map fl_neg (map (clip_upper (Fin 0)) delta)
        in if period = 0 then Inl ZeroDivisionError
           else if period < 0 then Inl ValueError
           else
             (let alpha = fdiv L (Fin 1) (Fin (real_of_int period));
                  avg_gain = ewm_mean_alpha L alpha (nat period) gain;
                  avg_loss = ewm_mean_alpha L alpha (nat period) loss;
                  rs = map2 (fdiv L) avg_gain avg_loss;
                  rsi = map (\<lambda>r. fsub L (Fin 100) (fdiv L (Fin 100) (fadd L (Fin 1) r))) rs
              in Inr rsi)))"

definition get_macd ::
  "numlib \<Rightarrow> dataframe \<Rightarrow> int \<Rightarrow> int \<Rightarrow> int \<Rightarrow> error + (series \<times> series)" where
  "get_macd L data fast slow signal_period =
     (if int (nrows data) < slow then Inr ([], [])
      else bind_err (getitem data ''Close'') (\<lambda>close.
           bind_err (ewm_span L fast close) (\<lambda>ema_fast.
           bind_err (getitem data ''Close'') (\<lambda>close'.
           bind_err (ewm_span L slow close') (\<lambda>ema_slow.
             let macd = map2 (fsub L) ema_fast ema_slow
             in bind_err (ewm_span L signal_period macd) (\<lambda>signal_line.
                  Inr (macd, signal_line)))))))"

section \<open>Signal evaluators\<close>

definition check_rsi_condition :: "dataframe \<Rightarrow> verdict" where
  "check_rsi_condition df =
     (case map_of (cols df) ''RSI'' of
        None \<Rightarrow> \<lparr>status = Fail, message = [Lit ''Not enough RSI data''], val = NoValue\<rparr>
      | Some rsi \<Rightarrow>
          if length (dropna rsi) < 2
          then \<lparr>status = Fail, message = [Lit ''Not enough RSI data''], val = NoValue\<rparr>
          else
            (let d = dropna rsi;
                 current_rsi = d ! (length d - 1);
                 previous_rsi = d ! (length d - 2);
                 is_in_range = ((fl_le (Fin 30) current_rsi \<and> fl_le current_rsi (Fin 60))
                                \<and> (fl_le (Fin 30) previous_rsi \<and> fl_le previous_rsi (Fin 60)));
                 is_rising = fl_gt current_rsi previous_rsi
             in if is_in_range \<and> is_rising
                then \<lparr>status = Pass,
                      message = [Lit ''RSI is between 30-60 and rising ('', Fmt2 current_rsi,
                                 Lit '')''],
                      val = Scalar current_rsi\<rparr>
                else \<lparr>status = Fail,
                      message = [Lit ''RSI condition not met ('', Fmt2 current_rsi, Lit '')''],
                      val = Scalar current_rsi\<rparr>))"

definition check_macd_crossover_or_rising :: "series \<Rightarrow> series \<Rightarrow> verdict" where
  "check_macd_crossover_or_rising macd0 signal0 =
     (let macd = dropna macd0;
          signal = dropna signal0
      in if length macd < 2 \<or> length signal < 2
         then \<lparr>status = Fail, message = [Lit ''Not enough MACD data''], val = NoValue\<rparr>
         else
           (let macd_last = macd ! (length macd - 1);
                macd_prev = macd ! (length macd - 2);
                signal_last = signal ! (length signal - 1);
                signal_prev = signal ! (length signal - 2);
                crossover = (fl_gt macd_last signal_last \<and> fl_le macd_prev signal_prev);
                is_rising = fl_gt macd_last macd_prev
            in if crossover \<or> is_rising
               then \<lparr>status = Pass,
                     message = [Lit ''MACD is rising or has crossed above the signal line''],
                     val = Fields [(''macd'', macd_last), (''signal'', signal_last)]\<rparr>
               else \<lparr>status = Fail,
                     message = [Lit ''MACD condition not met''],
                     val = Fields [(''macd'', macd_last), (''signal'', signal_last)]\<rparr>))"

text \<open>
  The DMI evaluator calls \<open>ta.trend.ADXIndicator\<close>, a library outside the repository. It
  is a parameter of the model: from the high, low and close series it yields the ADX, +DI
  and -DI series, or raises.
\<close>

type_synonym adx_indicator = "series \<Rightarrow> series \<Rightarrow> series \<Rightarrow> error + (series \<times> series \<times> series)"

text \<open>The body of the \<open>try\<close> block of \<open>check_dmi_trend\<close>.\<close>

definition check_dmi_trend_try :: "adx_indicator \<Rightarrow> dataframe \<Rightarrow> error + verdict" where
  "check_dmi_trend_try adx df =
     bind_err (getitem df ''High'') (\<lambda>high.
     bind_err (getitem df ''Low'') (\<lambda>low.
     bind_err (getitem df ''Close'') (\<lambda>close.
     bind_err (adx high low close) (\<lambda>(adx_values, plus_di, minus_di).
     bind_err (iloc_back adx_values 1) (\<lambda>last_adx.
     bind_err (iloc_back plus_di 1) (\<lambda>last_plus_di.
     bind_err (iloc_back minus_di 1) (\<lambda>last_minus_di.
       if fl_gt last_adx (Fin 20) \<and> fl_gt last_plus_di last_minus_di
       then Inr \<lparr>status = Pass,
                 message = [Lit ''Bullish DMI trend confirmed (ADX: '', Fmt2 last_adx, Lit '')''],
                 val = Fields [(''adx'', last_adx), (''plus_di'', last_plus_di),
                               (''minus_di'', last_minus_di)]\<rparr>
       else Inr \<lparr>status = Fail,
                 message = [Lit ''DMI condition not met (ADX: '', Fmt2 last_adx, Lit '')''],
                 val = Fields [(''adx'', last_adx), (''plus_di'', last_plus_di),
                               (''minus_di'', last_minus_di)]\<rparr>)))))))"

definition check_dmi_trend :: "adx_indicator \<Rightarrow> dataframe \<Rightarrow> verdict" where
  "check_dmi_trend adx df =
     (if nrows df < 28
      then \<lparr>status = Fail, message = [Lit ''Not enough data for DMI calculation''],
            val = NoValue\<rparr>
      else (case check_dmi_trend_try adx df of
              Inr v \<Rightarrow> v
            | Inl e \<Rightarrow> \<lparr>status = Fail, message = [Lit ''Error calculating DMI: '', Exc e],
                        val = NoValue\<rparr>))"

text \<open>\<open>check_ema_crossover\<close> has no \<open>try\<close> block: what its body raises, it raises.\<close>

definition check_ema_crossover ::
  "numlib \<Rightarrow> dataframe \<Rightarrow> int \<Rightarrow> int \<Rightarrow> error + verdict" where
  "check_ema_crossover L df fast slow =
     (if int (nrows df) < slow
      then Inr \<lparr>status = Fail, message = [Lit ''Not enough data for EMA calculation''],
                val = NoValue\<rparr>
      else
        bind_err (getitem df ''Close'') (\<lambda>close.
        bind_err (ewm_span L fast close) (\<lambda>ema_fast.
        bind_err (getitem df ''Close'') (\<lambda>close'.
        bind_err (ewm_span L slow close') (\<lambda>ema_slow.
          if nrows df < 2
          then Inr \<lparr>status = Fail, message = [Lit ''Not enough data to check for crossover''],
                    val = NoValue\<rparr>
          else
            bind_err (iloc_back ema_fast 2) (\<lambda>prev_fast.
            bind_err (iloc_back ema_slow 2) (\<lambda>prev_slow.
            bind_err (iloc_back ema_fast 1) (\<lambda>curr_fast.
            bind_err (iloc_back ema_slow 1) (\<lambda>curr_slow.
              if fl_le prev_fast prev_slow \<and> fl_gt curr_fast curr_slow
              then Inr \<lparr>status = Pass,
                        message = [Lit ''EMA 8 just crossed above EMA 21''],
                        val = Fields [(''ema_fast'', curr_fast), (''ema_slow'', curr_slow)]\<rparr>
              else Inr \<lparr>status = Fail,
                        message = [Lit ''No recent bullish EMA crossover''],
                        val = Fields [(''ema_fast'', curr_fast),
                                      (''ema_slow'', curr_slow)]\<rparr>)))))))))"

text \<open>The body of the \<open>try\<close> block of \<open>check_short_squeeze_risk\<close>.\<close>

definition check_short_squeeze_risk_try :: "numlib \<Rightarrow> dataframe \<Rightarrow> error + verdict" where
  "check_short_squeeze_risk_try L df =
     bind_err (getitem df ''Close'') (\<lambda>close.
     let ma20 = rolling_mean L 20 close in
     bind_err (getitem df ''Volume'') (\<lambda>volume.
     let volume_avg20 = rolling_mean L 20 volume;
         rvol = map2 (fdiv L) volume volume_avg20;
         resistance = shift1 (rolling fl_maximum 30 close)
     in
     bind_err (iloc_back close 1) (\<lambda>last_close.
     bind_err (iloc_back resistance 1) (\<lambda>last_resistance.
     bind_err (iloc_back rvol 1) (\<lambda>last_rvol.
       let has_breakout = (fl_gt last_close last_resistance \<and> fl_gt last_rvol (Fin 2))
       in if has_breakout
          then Inr \<lparr>status = Warn,
                    message = [Lit (''Potential short squeeze risk detected! Price broke ''
                                    @ ''resistance on high relative volume (RVOL: ''),
                               Fmt2 last_rvol, Lit '')''],
                    val = Fields [(''rvol'', last_rvol), (''resistance'', last_resistance),
                                  (''price'', last_close)]\<rparr>
          else Inr \<lparr>status = Pass,
                    message = [Lit ''No major short squeeze risk detected''],
                    val = Fields [(''rvol'', last_rvol), (''resistance'', last_resistance),
                                  (''price'', last_close)]\<rparr>)))))"

definition check_short_squeeze_risk :: "numlib \<Rightarrow> dataframe \<Rightarrow> verdict" where
  "check_short_squeeze_risk L df =
     (if nrows df < 30
      then \<lparr>status = Fail, message = [Lit ''Not enough data for squeeze analysis''],
            val = NoValue\<rparr>
      else (case check_short_squeeze_risk_try L df of
              Inr v \<Rightarrow> v
            | Inl e \<Rightarrow> \<lparr>status = Fail, message = [Lit ''Error analyzing squeeze risk: '', Exc e],
                        val = NoValue\<rparr>))"

section \<open>Ticker analysis\<close>

text \<open>
  The result of an analysis is a dictionary. The keys \<open>ticker\<close> and \<open>asset_type\<close> hold
  strings, \<open>current_price\<close> holds a dictionary with the price and its formatted text, and
  every criterion key holds a verdict.
\<close>

datatype entry = TextEntry string | PriceEntry "fl option" "part list" | VerdictEntry verdict

type_synonym result = "(string \<times> entry) list"

text \<open>\<open>criteria.get(name)\<close> used as a condition.\<close>

definition enabled :: "(string \<rightharpoonup> bool) \<Rightarrow> string \<Rightarrow> bool" where
  "enabled criteria name = (criteria name = Some True)"

text \<open>
  The data source is a parameter: \<open>get_next_earnings_date\<close> returns a date, if any, and an
  error text. A date counts as found when it is neither \<open>None\<close> nor the empty string.
\<close>

type_synonym earnings_source = "string \<Rightarrow> string option \<times> string"

definition earnings_verdict :: "string option \<times> string \<Rightarrow> verdict" where
  "earnings_verdict r =
     (case r of (earnings_date, earnings_error) \<Rightarrow>
        (case earnings_date of
           Some d \<Rightarrow>
             if d \<noteq> [] then \<lparr>status = Pass, message = [Lit d], val = TextValue earnings_date\<rparr>
             else \<lparr>status = Fail, message = [Lit earnings_error], val = TextValue earnings_date\<rparr>
         | None \<Rightarrow>
             \<lparr>status = Fail, message = [Lit earnings_error], val = TextValue earnings_date\<rparr>))"

text \<open>The dictionary \<open>analyze_ticker\<close> starts from: the three metadata entries.\<close>

definition initial_result :: "string \<Rightarrow> string \<Rightarrow> fl option \<Rightarrow> result" where
  "initial_result ticker asset_type current_price =
     [(''ticker'', TextEntry ticker),
      (''asset_type'', TextEntry asset_type),
      (''current_price'',
       PriceEntry current_price
         (case current_price of
            None \<Rightarrow> [Lit ''N/A'']
          | Some p \<Rightarrow> if p = Fin 0 then [Lit ''N/A''] else [Lit ''$'', Fmt2 p]))]"

text \<open>
  \<open>analyze_ticker\<close> assigns the RSI column to \<open>data_df\<close> in place, so the model returns the
  frame as the call leaves it together with the result. An exception of an evaluator or of
  \<open>get_macd\<close> leaves the function.
\<close>

definition analyze_ticker ::
  "numlib \<Rightarrow> adx_indicator \<Rightarrow> earnings_source \<Rightarrow> string \<Rightarrow> string \<Rightarrow> dataframe \<Rightarrow>
   dataframe \<Rightarrow> fl option \<Rightarrow> (string \<rightharpoonup> bool) \<Rightarrow> error + (dataframe \<times> result)" where
  "analyze_ticker L adx get_next_earnings_date ticker asset_type data_df daily_df current_price
                  criteria =
     (let result0 = initial_result ticker asset_type current_price
      in
      bind_err
        (if \<not> df_empty data_df then
           bind_err
             (if enabled criteria ''rsi_confirmation'' then
                bind_err (calculate_rsi L data_df 14) (\<lambda>rsi.
                  let df1 = set_column data_df ''RSI'' rsi
                  in Inr (df1, dict_set result0 ''rsi_confirmation''
                                 (VerdictEntry (check_rsi_condition df1))))
              else Inr (data_df, result0)) (\<lambda>(df1, r1).
           let r2 = (if enabled criteria ''dmi_confirmation'' \<and> asset_type = ''Stock''
                     then dict_set r1 ''dmi_confirmation''
                            (VerdictEntry (check_dmi_trend adx daily_df))
                     else r1)
           in
           bind_err
             (if enabled criteria ''ema_crossover'' \<and> asset_type = ''Stock'' then
                bind_err (check_ema_crossover L daily_df 8 21) (\<lambda>v.
                  Inr (dict_set r2 ''ema_crossover'' (VerdictEntry v)))
              else Inr r2) (\<lambda>r3.
           bind_err
             (if enabled criteria ''macd_crossover'' \<and> asset_type = ''Stock'' then
                bind_err (get_macd L daily_df 8 21 9) (\<lambda>(daily_macd, daily_signal).
                  Inr (dict_set r3 ''macd_crossover''
                         (VerdictEntry (check_macd_crossover_or_rising daily_macd daily_signal))))
              else Inr r3) (\<lambda>r4.
           bind_err
             (if enabled criteria ''weekly_macd'' \<and> asset_type = ''Stock'' then
                bind_err (get_macd L df1 12 26 9) (\<lambda>(weekly_macd, weekly_signal).
                  Inr (dict_set r4 ''weekly_macd''
                         (VerdictEntry (check_macd_crossover_or_rising weekly_macd weekly_signal))))
              else Inr r4) (\<lambda>r5.
           Inr (df1,
                if enabled criteria ''avoid_squeeze'' \<and> asset_type = ''Stock''
                then dict_set r5 ''avoid_squeeze'' (VerdictEntry (check_short_squeeze_risk L daily_df))
                else r5)))))
         else Inr (data_df, result0)) (\<lambda>(df', r).
      Inr (df',
           if enabled criteria ''next_earning_date'' \<and> asset_type = ''Stock''
           then dict_set r ''next_earning_date''
                  (VerdictEntry (earnings_verdict (get_next_earnings_date ticker)))
           else r)))"

section \<open>The passing view of the watchlist\<close>

text \<open>
  \<open>value.get('status')\<close>: a string has no \<open>get\<close>; the price dictionary has no status key.
\<close>

fun get_status :: "entry \<Rightarrow> error + status option" where
  "get_status (TextEntry s) = Inl AttributeError"
| "get_status (PriceEntry p f) = Inr None"
| "get_status (VerdictEntry v) = Inr (Some (status v))"

definition metadata_keys :: "string list" where
  "metadata_keys = [''ticker'', ''asset_type'', ''current_price'']"

text \<open>
  The \<open>any(...)\<close> of the filter in \<open>analyze_watchlist\<close>: the items of the dictionary in
  order, the metadata keys skipped, stopping at the first status that is Pass or Warn.
\<close>

fun is_passing :: "result \<Rightarrow> error + bool" where
  "is_passing [] = Inr False"
| "is_passing ((key, v) # items) =
     (if key \<in> set metadata_keys then is_passing items
      else bind_err (get_status v) (\<lambda>st.
             if st \<in> {Some Pass, Some Warn} then Inr True else is_passing items))"

fun passing_results :: "result list \<Rightarrow> error + result list" where
  "passing_results [] = Inr []"
| "passing_results (r # rs) =
     bind_err (is_passing r) (\<lambda>keep.
     bind_err (passing_results rs) (\<lambda>rest.
       Inr (if keep then r # rest else rest)))"

section \<open>Notions of the specification\<close>

text \<open>
  The last two defined points of a series, when it has them.
\<close>

definition last_two :: "series \<Rightarrow> (fl \<times> fl) option" where
  "last_two xs =
     (let d = dropna xs
      in if length d < 2 then None else Some (d ! (length d - 2), d ! (length d - 1)))"

text \<open>
  The resistance of the squeeze evaluator as the specification words it: the maximum close
  of the 30 bars before the current (last) bar.
\<close>

definition resistance_excluding_current :: "real list \<Rightarrow> real" where
  "resistance_excluding_current cs = Max (set (take 30 (drop (length cs - 31) cs)))"

text \<open>
  The relative volume: the current volume divided by the 20-bar rolling mean volume at the
  current bar, both as the numeric library computes them.
\<close>

definition relative_volume :: "numlib \<Rightarrow> series \<Rightarrow> fl" where
  "relative_volume L volume = fdiv L (last volume) (last (rolling_mean L 20 volume))"

text \<open>
  The passing classification as the specification words it: at least one entry under a key
  other than the metadata keys is a verdict with status Pass or Warn.
\<close>

definition passes :: "result \<Rightarrow> bool" where
  "passes r =
     list_ex (\<lambda>(k, e). k \<notin> set metadata_keys \<and>
                (case e of VerdictEntry v \<Rightarrow> status v = Pass \<or> status v = Warn | _ \<Rightarrow> False)) r"

text \<open>A result whose entries under the criterion keys are dictionaries, as verdicts are.\<close>

definition dict_entries :: "result \<Rightarrow> bool" where
  "dict_entries r =
     list_all (\<lambda>(k, e). k \<in> set metadata_keys \<or> (case e of TextEntry s \<Rightarrow> False | _ \<Rightarrow> True)) r"

text \<open>The criteria that only a Stock is analysed for.\<close>

definition stock_only_keys :: "string list" where
  "stock_only_keys =
     [''dmi_confirmation'', ''ema_crossover'', ''macd_crossover'', ''weekly_macd'',
      ''avoid_squeeze'', ''next_earning_date'']"

text \<open>The criteria computed from the bar series.\<close>

definition indicator_keys :: "string list" where
  "indicator_keys =
     [''rsi_confirmation'', ''dmi_confirmation'', ''ema_crossover'', ''macd_crossover'',
      ''weekly_macd'', ''avoid_squeeze'']"

text \<open>The status an evaluator returns, if it returns.\<close>

definition returned_status :: "error + verdict \<Rightarrow> status option" where
  "returned_status r = (case r of Inl e \<Rightarrow> None | Inr v \<Rightarrow> Some (status v))"

text \<open>
  A fresh crossover at the last bar: the fast average was at most the slow one at the bar
  before the last and is above it at the last bar.
\<close>

definition fresh_crossover :: "series \<Rightarrow> series \<Rightarrow> bool" where
  "fresh_crossover fast slow =
     (fl_le (fast ! (length fast - 2)) (slow ! (length slow - 2))
      \<and> fl_gt (fast ! (length fast - 1)) (slow ! (length slow - 1)))"

text \<open>A bar table with numeric close and volume columns.\<close>

definition bars :: "real list \<Rightarrow> real list \<Rightarrow> dataframe" where
  "bars cs vs = \<lparr>nrows = length cs, cols = [(''Close'', map Fin cs), (''Volume'', map Fin vs)]\<rparr>"

section \<open>Example inputs\<close>

text \<open>
  A numeric library that does not round, to run examples on: the arithmetic of the reals,
  with the IEEE 754 results for infinities, NaN and division by zero, and the window kernels
  as section 4.1 of the specification describes them. Its exponential average starts at the
  first defined entry and is updated by \<open>y' = (1 - \<alpha>) * y + \<alpha> * x\<close>; an absent entry keeps
  the average and ages its weight by \<open>1 - \<alpha>\<close>; an output is absent until
  \<open>max min_periods 1\<close> defined entries have been seen. Its rolling mean is the mean of the
  window. It stands in for float64 and pandas in the examples only.
\<close>

fun fl_add :: "fl \<Rightarrow> fl \<Rightarrow> fl" where
  "fl_add NaN _ = NaN"
| "fl_add _ NaN = NaN"
| "fl_add (Fin a) (Fin b) = Fin (a + b)"
| "fl_add PInf NInf = NaN"
| "fl_add NInf PInf = NaN"
| "fl_add PInf _ = PInf"
| "fl_add _ PInf = PInf"
| "fl_add NInf _ = NInf"
| "fl_add _ NInf = NInf"

definition fl_sub :: "fl \<Rightarrow> fl \<Rightarrow> fl" where
  "fl_sub a b = fl_add a (fl_neg b)"

fun fl_sgn :: "fl \<Rightarrow> int" where
  "fl_sgn (Fin a) = (if a < 0 then - 1 else if a = 0 then 0 else 1)"
| "fl_sgn PInf = 1"
| "fl_sgn NInf = - 1"
| "fl_sgn NaN = 0"

fun fl_mul :: "fl \<Rightarrow> fl \<Rightarrow> fl" where
  "fl_mul NaN _ = NaN"
| "fl_mul _ NaN = NaN"
| "fl_mul (Fin a) (Fin b) = Fin (a * b)"
| "fl_mul a b =
     (if fl_sgn a * fl_sgn b = 0 then NaN else if fl_sgn a * fl_sgn b < 0 then NInf else PInf)"

fun fl_div :: "fl \<Rightarrow> fl \<Rightarrow> fl" where
  "fl_div NaN _ = NaN"
| "fl_div _ NaN = NaN"
| "fl_div (Fin a) (Fin b) =
     (if b \<noteq> 0 then Fin (a / b) else if a = 0 then NaN else if a < 0 then NInf else PInf)"
| "fl_div (Fin a) _ = Fin 0"
| "fl_div a (Fin b) = (if fl_sgn a * (if b < 0 then - 1 else 1) < 0 then NInf else PInf)"
| "fl_div _ _ = NaN"

fun exact_ewm_loop :: "real \<Rightarrow> nat \<Rightarrow> fl \<Rightarrow> real \<Rightarrow> nat \<Rightarrow> series \<Rightarrow> series" where
  "exact_ewm_loop alpha minp weighted old_wt nobs [] = []"
| "exact_ewm_loop alpha minp weighted old_wt nobs (cur # rest) =
     (let is_observation = (cur \<noteq> NaN);
          nobs' = (if is_observation then nobs + 1 else nobs);
          aged = old_wt * (1 - alpha);
          weighted' =
            (if weighted \<noteq> NaN
             then (if is_observation \<and> weighted \<noteq> cur
                   then fl_div (fl_add (fl_mul (Fin aged) weighted) (fl_mul (Fin alpha) cur))
                               (Fin (aged + alpha))
                   else weighted)
             else (if is_observation then cur else weighted));
          old_wt' = (if weighted \<noteq> NaN then (if is_observation then 1 else aged) else old_wt)
      in (if minp \<le> nobs' then weighted' else NaN)
           # exact_ewm_loop alpha minp weighted' old_wt' nobs' rest)"

definition exact_ewm :: "real \<Rightarrow> nat \<Rightarrow> series \<Rightarrow> series" where
  "exact_ewm alpha min_periods xs = exact_ewm_loop alpha (max min_periods 1) NaN 1 0 xs"

definition exact_mean :: "series \<Rightarrow> fl" where
  "exact_mean win = fl_div (foldl fl_add (Fin 0) win) (Fin (real (length win)))"

definition exact_lib :: numlib where
  "exact_lib =
     \<lparr>fadd = fl_add, fsub = fl_sub, fdiv = fl_div,
      ewm_mean_alpha =
        (\<lambda>alpha m xs. case alpha of Fin a \<Rightarrow> exact_ewm a m xs | _ \<Rightarrow> map (\<lambda>x. NaN) xs),
      ewm_mean_span = (\<lambda>n xs. exact_ewm (2 / (real_of_int n + 1)) 0 xs),
      rolling_mean = rolling exact_mean\<rparr>"

text \<open>\<open>pd.DataFrame()\<close>, what the data source returns with an error text.\<close>

definition empty_table :: dataframe where
  "empty_table = \<lparr>nrows = 0, cols = []\<rparr>"

text \<open>A table of 30 bars that lacks the close column.\<close>

definition table_without_close :: dataframe where
  "table_without_close =
     \<lparr>nrows = 30,
      cols = [(''Open'', replicate 30 (Fin 10)), (''High'', replicate 30 (Fin 11)),
              (''Low'', replicate 30 (Fin 9)), (''Volume'', replicate 30 (Fin 1000))]\<rparr>"

text \<open>Two closes, as a long series of two bars.\<close>

definition two_bar_table :: dataframe where
  "two_bar_table = \<lparr>nrows = 2, cols = [(''Close'', [Fin 10, Fin 11])]\<rparr>"

text \<open>An ADX library that reports a strong upward trend.\<close>

definition trending_adx :: adx_indicator where
  "trending_adx high low close = Inr ([Fin 25], [Fin 30], [Fin 10])"

text \<open>A data source that knows no earnings date.\<close>

definition no_earnings :: earnings_source where
  "no_earnings ticker = (None, ''No upcoming earnings found.'')"

text \<open>The criteria with every indicator flag set, and with every flag set.\<close>

definition indicator_criteria :: "string \<rightharpoonup> bool" where
  "indicator_criteria =
     map_of [(''avoid_squeeze'', True), (''rsi_confirmation'', True),
             (''dmi_confirmation'', True), (''ema_crossover'', True),
             (''macd_crossover'', True), (''weekly_macd'', True),
             (''next_earning_date'', False)]"

definition all_criteria :: "string \<rightharpoonup> bool" where
  "all_criteria =
     map_of [(''avoid_squeeze'', True), (''rsi_confirmation'', True),
             (''dmi_confirmation'', True), (''ema_crossover'', True),
             (''macd_crossover'', True), (''weekly_macd'', True),
             (''next_earning_date'', True)]"

text \<open>A result whose criteria all failed, and one with a warning among failures.\<close>

definition all_fail_result :: result where
  "all_fail_result =
     [(''ticker'', TextEntry ''AAA''), (''asset_type'', TextEntry ''Stock''),
      (''current_price'', PriceEntry None [Lit ''N/A'']),
      (''rsi_confirmation'',
       VerdictEntry \<lparr>status = Fail, message = [Lit ''Not enough RSI data''], val = NoValue\<rparr>),
      (''ema_crossover'',
       VerdictEntry \<lparr>status = Fail, message = [Lit ''Not enough data for EMA calculation''],
                     val = NoValue\<rparr>)]"

definition one_warn_result :: result where
  "one_warn_result =
     [(''ticker'', TextEntry ''BBB''), (''asset_type'', TextEntry ''Stock''),
      (''current_price'', PriceEntry (Some (Fin 105)) [Lit ''$'', Fmt2 (Fin 105)]),
      (''rsi_confirmation'',
       VerdictEntry \<lparr>status = Fail, message = [Lit ''Not enough RSI data''], val = NoValue\<rparr>),
      (''avoid_squeeze'',
       VerdictEntry \<lparr>status = Warn,
                     message = [Lit (''Potential short squeeze risk detected! Price broke ''
                                     @ ''resistance on high relative volume (RVOL: ''),
                                Fmt2 (Fin 2.73), Lit '')''],
                     val = Fields [(''rvol'', Fin 2.73), (''resistance'', Fin 100),
                                   (''price'', Fin 105)]\<rparr>)]"

section \<open>Properties\<close>

lemma last_two_append: "dropna xs = pre @ [a, b] \<Longrightarrow> last_two xs = Some (a, b)"
  by (simp add: last_two_def nth_append)

lemma last_two_None: "last_two xs = None \<longleftrightarrow> length (dropna xs) < 2"
  by (simp add: last_two_def Let_def)

lemma macd_status_last_two:
  "status (check_macd_crossover_or_rising m s) =
     (case (last_two m, last_two s) of
        (Some (pm, lm), Some (ps, ls)) \<Rightarrow>
          if (fl_le pm ps \<and> fl_gt lm ls) \<or> fl_gt lm pm then Pass else Fail
      | _ \<Rightarrow> Fail)"
  by (auto simp: check_macd_crossover_or_rising_def last_two_def Let_def)

subsection \<open>MACD crossover-or-rising\<close>

text \<open>
  Claim C1. The MACD crossover-or-rising evaluator returns Pass exactly when both series
  have two defined points and, on the last two defined points of each, either the MACD
  crosses above the signal (previous MACD at most the previous signal, last MACD above the
  last signal) or the MACD rises (last MACD above the previous MACD). Otherwise it returns
  Fail, in particular when a series has fewer than two defined points. Two pairs of series
  that agree on their last two defined points get the same verdict, so earlier points never
  matter.
\<close>

theorem macd_crossover_or_rising_last_two:
  "(status (check_macd_crossover_or_rising m s) = Pass \<longleftrightarrow>
      (\<exists>pm lm ps ls. last_two m = Some (pm, lm) \<and> last_two s = Some (ps, ls) \<and>
         ((fl_le pm ps \<and> fl_gt lm ls) \<or> fl_gt lm pm)))
   \<and> (status (check_macd_crossover_or_rising m s) \<noteq> Pass \<longrightarrow>
        status (check_macd_crossover_or_rising m s) = Fail)
   \<and> (length (dropna m) < 2 \<or> length (dropna s) < 2 \<longrightarrow>
        status (check_macd_crossover_or_rising m s) = Fail)
   \<and> (\<forall>m' s'. last_two m' = last_two m \<and> last_two s' = last_two s \<and>
          last_two m \<noteq> None \<and> last_two s \<noteq> None \<longrightarrow>
          check_macd_crossover_or_rising m' s' = check_macd_crossover_or_rising m s)"
proof -
  have st: "status (check_macd_crossover_or_rising m s) =
     (case (last_two m, last_two s) of
        (Some (pm, lm), Some (ps, ls)) \<Rightarrow>
          if (fl_le pm ps \<and> fl_gt lm ls) \<or> fl_gt lm pm then Pass else Fail
      | _ \<Rightarrow> Fail)"
    by (rule macd_status_last_two)
  have a: "status (check_macd_crossover_or_rising m s) = Pass \<longleftrightarrow>
      (\<exists>pm lm ps ls. last_two m = Some (pm, lm) \<and> last_two s = Some (ps, ls) \<and>
         ((fl_le pm ps \<and> fl_gt lm ls) \<or> fl_gt lm pm))"
    unfolding st by (auto split: option.splits prod.splits)
  have b: "status (check_macd_crossover_or_rising m s) \<noteq> Pass \<longrightarrow>
        status (check_macd_crossover_or_rising m s) = Fail"
    unfolding st by (auto split: option.splits prod.splits)
  have c: "length (dropna m) < 2 \<or> length (dropna s) < 2 \<longrightarrow>
        status (check_macd_crossover_or_rising m s) = Fail"
    unfolding st by (auto simp: last_two_def split: option.splits prod.splits)
  have d: "check_macd_crossover_or_rising m' s' = check_macd_crossover_or_rising m s"
    if "last_two m' = last_two m" "last_two s' = last_two s"
       "last_two m \<noteq> None" "last_two s \<noteq> None" for m' s'
    using that
    by (auto simp: check_macd_crossover_or_rising_def last_two_def Let_def split: if_splits)
  from a b c d show ?thesis by blast
qed

theorem macd_crossover_or_rising_last_two_witness:
  "status (check_macd_crossover_or_rising [Fin (-1), Fin (-0.5), Fin 0.2]
                                          [Fin (-0.8), Fin (-0.6), Fin 0.1]) = Pass
   \<and> last_two [Fin 5, NaN, Fin (-0.5), Fin 0.2, NaN] = last_two [Fin (-1), Fin (-0.5), Fin 0.2]
   \<and> last_two [Fin (-1), Fin (-0.5), Fin 0.2] \<noteq> None
   \<and> last_two [Fin (-0.8), Fin (-0.6), Fin 0.1] \<noteq> None
   \<and> check_macd_crossover_or_rising [Fin 5, NaN, Fin (-0.5), Fin 0.2, NaN]
                                     [Fin (-0.8), Fin (-0.6), Fin 0.1]
     = check_macd_crossover_or_rising [Fin (-1), Fin (-0.5), Fin 0.2]
                                      [Fin (-0.8), Fin (-0.6), Fin 0.1]"
proof -
  let ?m = "[Fin (-1), Fin (-0.5), Fin 0.2]"
  let ?s = "[Fin (-0.8), Fin (-0.6), Fin 0.1]"
  let ?m' = "[Fin 5, NaN, Fin (-0.5), Fin 0.2, NaN]"
  note t = macd_crossover_or_rising_last_two [of ?m ?s]
  have lm: "last_two ?m = Some (Fin (-0.5), Fin 0.2)"
    by (simp add: last_two_def dropna_def)
  have ls: "last_two ?s = Some (Fin (-0.6), Fin 0.1)"
    by (simp add: last_two_def dropna_def)
  have lm': "last_two ?m' = Some (Fin (-0.5), Fin 0.2)"
    by (simp add: last_two_def dropna_def)
  have rising: "fl_gt (Fin 0.2) (Fin (-0.5))"
    by (simp add: fl_gt_def)
  from t have "status (check_macd_crossover_or_rising ?m ?s) = Pass \<longleftrightarrow>
      (\<exists>pm lm ps ls. last_two ?m = Some (pm, lm) \<and> last_two ?s = Some (ps, ls) \<and>
         ((fl_le pm ps \<and> fl_gt lm ls) \<or> fl_gt lm pm))"
    by (rule conjunct1)
  moreover have "\<exists>pm lm ps ls. last_two ?m = Some (pm, lm) \<and> last_two ?s = Some (ps, ls) \<and>
         ((fl_le pm ps \<and> fl_gt lm ls) \<or> fl_gt lm pm)"
    using lm ls rising by (intro exI conjI disjI2)
  ultimately have p: "status (check_macd_crossover_or_rising ?m ?s) = Pass"
    by (rule iffD2)
  from t have "\<forall>m' s'. last_two m' = last_two ?m \<and> last_two s' = last_two ?s \<and>
          last_two ?m \<noteq> None \<and> last_two ?s \<noteq> None \<longrightarrow>
          check_macd_crossover_or_rising m' s' = check_macd_crossover_or_rising ?m ?s"
    by (elim conjE)
  then have "last_two ?m' = last_two ?m \<and> last_two ?s = last_two ?s \<and>
          last_two ?m \<noteq> None \<and> last_two ?s \<noteq> None \<longrightarrow>
          check_macd_crossover_or_rising ?m' ?s = check_macd_crossover_or_rising ?m ?s"
    by (elim allE)
  moreover have "last_two ?m' = last_two ?m \<and> last_two ?s = last_two ?s \<and>
          last_two ?m \<noteq> None \<and> last_two ?s \<noteq> None"
    by (simp only: lm ls lm') simp
  ultimately
  have e: "check_macd_crossover_or_rising ?m' ?s = check_macd_crossover_or_rising ?m ?s"
    by (rule mp)
  have n: "last_two ?m' = last_two ?m \<and> last_two ?m \<noteq> None \<and> last_two ?s \<noteq> None"
    by (simp only: lm ls lm') simp
  from p n e show ?thesis by (intro conjI) (elim conjE, assumption)+
qed

subsection \<open>The rolling maximum on numeric series\<close>

lemma foldl_fl_max_numeric: "foldl fl_max (Fin a) (map Fin ys) = Fin (Max (set (a # ys)))"
proof (induction ys arbitrary: a)
  case Nil
  show ?case by simp
next
  case (Cons y ys)
  have "fl_max (Fin a) (Fin y) = Fin (max a y)" by (simp add: fl_max_def max_def)
  moreover have "Max (set (max a y # ys)) = Max (set (a # y # ys))"
    by (cases "ys = []") (simp_all add: max.assoc)
  ultimately show ?case using Cons.IH by simp
qed

lemma fl_maximum_numeric: "ys \<noteq> [] \<Longrightarrow> fl_maximum (map Fin ys) = Fin (Max (set ys))"
  by (cases ys) (simp_all add: foldl_fl_max_numeric)

lemma NaN_notin_numeric: "NaN \<notin> set (map Fin ys)"
  by auto

lemma rolling_nth_numeric:
  assumes "i < length xs" "w \<le> i + 1"
  shows "rolling agg w (map Fin xs) ! i = agg (map Fin (take w (drop (i + 1 - w) xs)))"
  using assms NaN_notin_numeric [of "take w (drop (i + 1 - w) xs)"]
  by (simp add: rolling_def Let_def take_map drop_map del: set_map)

lemma rolling_nth_short:
  assumes "i < length xs" "i + 1 < w"
  shows "rolling agg w xs ! i = NaN"
  using assms by (simp add: rolling_def)

lemma length_rolling: "length (rolling agg w xs) = length xs"
  by (simp add: rolling_def)

lemma shift1_last:
  "2 \<le> length xs \<Longrightarrow> shift1 xs ! (length xs - 1) = xs ! (length xs - 2)"
  by (cases xs) (auto simp: shift1_def nth_Cons nth_butlast split: nat.splits)

lemma length_shift1: "length (shift1 xs) = length xs"
  by (simp add: shift1_def)

subsection \<open>EMA crossover\<close>

lemma fl_gt_not_le: "fl_gt a b \<Longrightarrow> \<not> fl_le a b"
  by (cases a; cases b) (auto simp: fl_gt_def)

lemma check_ema_crossover_returns:
  assumes close: "map_of (cols df) ''Close'' = Some c"
    and n: "21 \<le> nrows df"
    and lf: "length (ewm_mean_span L 8 c) = nrows df"
    and ls: "length (ewm_mean_span L 21 c) = nrows df"
  shows "returned_status (check_ema_crossover L df 8 21) =
           Some (if fresh_crossover (ewm_mean_span L 8 c) (ewm_mean_span L 21 c)
                 then Pass else Fail)"
proof -
  have g: "getitem df ''Close'' = Inr c"
    using close by (simp add: getitem_def)
  have f: "ewm_span L 8 c = Inr (ewm_mean_span L 8 c)"
    by (simp add: ewm_span_def)
  have s: "ewm_span L 21 c = Inr (ewm_mean_span L 21 c)"
    by (simp add: ewm_span_def)
  have i: "iloc_back xs k = Inr (xs ! (length xs - k))" if "length xs = nrows df" "k \<le> 2"
    for xs k
    using that n by (simp add: iloc_back_def)
  show ?thesis
    using n
    by (simp add: check_ema_crossover_def g f s i [OF lf] i [OF ls] bind_err_def
        fresh_crossover_def returned_status_def lf ls)
qed

text \<open>
  Claim C3. On a bar table of at least 21 bars, the EMA crossover evaluator with spans 8
  and 21 returns Pass exactly when the crossover is fresh at the last bar: the 8-span
  average is at most the 21-span average at the bar before the last and above it at the
  last bar, the averages being the series pandas computes over the index of the table.
  Otherwise it returns Fail, as it does on fewer than 21 bars; in particular it returns
  Fail when the fast average was above the slow one at the bar before the last already,
  that is when the crossover happened earlier.
\<close>

theorem ema_crossover_fresh:
  "(nrows df < 21 \<longrightarrow> returned_status (check_ema_crossover L df 8 21) = Some Fail)
   \<and> (21 \<le> nrows df \<and> map_of (cols df) ''Close'' = Some c \<and>
        length (ewm_mean_span L 8 c) = nrows df \<and> length (ewm_mean_span L 21 c) = nrows df
        \<longrightarrow> returned_status (check_ema_crossover L df 8 21) =
              Some (if fresh_crossover (ewm_mean_span L 8 c) (ewm_mean_span L 21 c)
                    then Pass else Fail))
   \<and> (21 \<le> nrows df \<and> map_of (cols df) ''Close'' = Some c \<and>
        length (ewm_mean_span L 8 c) = nrows df \<and> length (ewm_mean_span L 21 c) = nrows df \<and>
        fl_gt (ewm_mean_span L 8 c ! (nrows df - 2)) (ewm_mean_span L 21 c ! (nrows df - 2))
        \<longrightarrow> returned_status (check_ema_crossover L df 8 21) = Some Fail)"
proof (intro conjI impI)
  assume "nrows df < 21"
  then show "returned_status (check_ema_crossover L df 8 21) = Some Fail"
    by (simp add: check_ema_crossover_def returned_status_def)
next
  assume "21 \<le> nrows df \<and> map_of (cols df) ''Close'' = Some c \<and>
        length (ewm_mean_span L 8 c) = nrows df \<and> length (ewm_mean_span L 21 c) = nrows df"
  then show "returned_status (check_ema_crossover L df 8 21) =
              Some (if fresh_crossover (ewm_mean_span L 8 c) (ewm_mean_span L 21 c)
                    then Pass else Fail)"
    by (simp add: check_ema_crossover_returns)
next
  assume a: "21 \<le> nrows df \<and> map_of (cols df) ''Close'' = Some c \<and>
        length (ewm_mean_span L 8 c) = nrows df \<and> length (ewm_mean_span L 21 c) = nrows df \<and>
        fl_gt (ewm_mean_span L 8 c ! (nrows df - 2)) (ewm_mean_span L 21 c ! (nrows df - 2))"
  then have "\<not> fl_le (ewm_mean_span L 8 c ! (nrows df - 2)) (ewm_mean_span L 21 c ! (nrows df - 2))"
    using fl_gt_not_le by blast
  with a have "\<not> fresh_crossover (ewm_mean_span L 8 c) (ewm_mean_span L 21 c)"
    by (simp add: fresh_crossover_def)
  with a show "returned_status (check_ema_crossover L df 8 21) = Some Fail"
    by (simp add: check_ema_crossover_returns)
qed

theorem ema_crossover_fresh_witness:
  "returned_status
     (check_ema_crossover exact_lib (bars (replicate 19 10 @ [9, 11]) (replicate 21 1000)) 8 21)
     = Some Pass
   \<and> returned_status
       (check_ema_crossover exact_lib
          (bars (replicate 19 10 @ [9, 11, 11]) (replicate 22 1000)) 8 21)
     = Some Fail
   \<and> returned_status
       (check_ema_crossover exact_lib (bars (replicate 20 10) (replicate 20 1000)) 8 21)
     = Some Fail"
proof -
  let ?c1 = "map Fin (replicate 19 10 @ [9, 11])"
  let ?c2 = "map Fin (replicate 19 10 @ [9, 11, 11])"
  let ?d1 = "bars (replicate 19 10 @ [9, 11]) (replicate 21 1000)"
  let ?d2 = "bars (replicate 19 10 @ [9, 11, 11]) (replicate 22 1000)"
  let ?d3 = "bars (replicate 20 10) (replicate 20 1000)"
  have h1: "21 \<le> nrows ?d1 \<and> map_of (cols ?d1) ''Close'' = Some ?c1 \<and>
        length (ewm_mean_span exact_lib 8 ?c1) = nrows ?d1 \<and>
        length (ewm_mean_span exact_lib 21 ?c1) = nrows ?d1"
    by code_simp
  have x1: "fresh_crossover (ewm_mean_span exact_lib 8 ?c1) (ewm_mean_span exact_lib 21 ?c1)"
    by code_simp
  have h2: "21 \<le> nrows ?d2 \<and> map_of (cols ?d2) ''Close'' = Some ?c2 \<and>
        length (ewm_mean_span exact_lib 8 ?c2) = nrows ?d2 \<and>
        length (ewm_mean_span exact_lib 21 ?c2) = nrows ?d2 \<and>
        fl_gt (ewm_mean_span exact_lib 8 ?c2 ! (nrows ?d2 - 2))
              (ewm_mean_span exact_lib 21 ?c2 ! (nrows ?d2 - 2))"
    by code_simp
  have h3: "nrows ?d3 < 21"
    by (simp add: bars_def)
  note t1 = ema_crossover_fresh
              [where L = exact_lib and df = ?d1 and c = ?c1, THEN conjunct2, THEN conjunct1]
  note t2 = ema_crossover_fresh
              [where L = exact_lib and df = ?d2 and c = ?c2, THEN conjunct2, THEN conjunct2]
  note t3 = ema_crossover_fresh [where L = exact_lib and df = ?d3, THEN conjunct1]
  have r1: "returned_status (check_ema_crossover exact_lib ?d1 8 21) = Some Pass"
    using t1 [THEN mp, OF h1] x1 by (simp only: if_True)
  have r2: "returned_status (check_ema_crossover exact_lib ?d2 8 21) = Some Fail"
    using t2 h2 by (rule mp)
  have r3: "returned_status (check_ema_crossover exact_lib ?d3 8 21) = Some Fail"
    using t3 h3 by (rule mp)
  from r1 r2 r3 show ?thesis by (intro conjI)
qed

subsection \<open>Short-squeeze risk\<close>

lemma map2_nth:
  "i < length xs \<Longrightarrow> i < length ys \<Longrightarrow> map2 f xs ys ! i = f (xs ! i) (ys ! i)"
  by (simp add: map2_def)

lemma length_map2: "length (map2 f xs ys) = min (length xs) (length ys)"
  by (simp add: map2_def)

lemma last_resistance_numeric:
  assumes "30 \<le> length cs"
  shows "iloc_back (shift1 (rolling fl_maximum 30 (map Fin cs))) (Suc 0) =
           Inr (if 31 \<le> length cs then Fin (resistance_excluding_current cs) else NaN)"
proof -
  let ?r = "rolling fl_maximum 30 (map Fin cs)"
  have len: "length ?r = length cs"
    by (simp add: length_rolling)
  have ne: "cs \<noteq> []"
    using assms by auto
  have "iloc_back (shift1 ?r) (Suc 0) = Inr (shift1 ?r ! (length ?r - 1))"
    using ne by (simp add: iloc_back_def length_shift1 len)
  also have "shift1 ?r ! (length ?r - 1) = ?r ! (length cs - 2)"
    using assms shift1_last [of ?r] by (simp add: len)
  also have "?r ! (length cs - 2) =
      (if 31 \<le> length cs then Fin (resistance_excluding_current cs) else NaN)"
  proof (cases "31 \<le> length cs")
    case True
    then have "?r ! (length cs - 2) =
        fl_maximum (map Fin (take 30 (drop (length cs - 2 + 1 - 30) cs)))"
      by (intro rolling_nth_numeric) simp_all
    moreover have "length cs - 2 + 1 - 30 = length cs - 31"
      using True by simp
    moreover have "take 30 (drop (length cs - 31) cs) \<noteq> []"
      using True by simp
    ultimately show ?thesis
      using True by (simp add: fl_maximum_numeric resistance_excluding_current_def)
  next
    case False
    then have "?r ! (length cs - 2) = NaN"
      using assms by (intro rolling_nth_short) simp_all
    then show ?thesis using False by simp
  qed
  finally show ?thesis .
qed

lemma last_rvol:
  assumes "length (rolling_mean L 20 v) = length v" and "v \<noteq> []"
  shows "iloc_back (map2 (fdiv L) v (rolling_mean L 20 v)) (Suc 0) = Inr (relative_volume L v)"
proof -
  let ?a = "rolling_mean L 20 v"
  let ?i = "length v - 1"
  have i: "?i < length v" "?i < length ?a"
    using assms by simp_all
  have a: "?a \<noteq> []"
    using assms by auto
  have "map2 (fdiv L) v ?a ! ?i = fdiv L (v ! ?i) (?a ! ?i)"
    using i by (rule map2_nth)
  also have "\<dots> = relative_volume L v"
    using assms a by (simp add: relative_volume_def last_conv_nth)
  finally show ?thesis
    using assms by (simp add: iloc_back_def length_map2)
qed

lemma check_short_squeeze_risk_try_numeric:
  assumes "map_of (cols df) ''Close'' = Some (map Fin cs)"
    and "map_of (cols df) ''Volume'' = Some v"
    and "30 \<le> length cs" and "v \<noteq> []"
    and "length (rolling_mean L 20 v) = length v"
  shows "\<exists>r. check_short_squeeze_risk_try L df = Inr r \<and>
           status r =
             (if 31 \<le> length cs \<and> resistance_excluding_current cs < last cs
                 \<and> fl_gt (relative_volume L v) (Fin 2)
              then Warn else Pass)"
proof -
  have c: "getitem df ''Close'' = Inr (map Fin cs)"
    using assms(1) by (simp add: getitem_def)
  have v: "getitem df ''Volume'' = Inr v"
    using assms(2) by (simp add: getitem_def)
  have ne: "cs \<noteq> []"
    using assms(3) by auto
  have l: "iloc_back (map Fin cs) (Suc 0) = Inr (Fin (last cs))"
    using ne by (simp add: iloc_back_def last_conv_nth)
  note r = last_resistance_numeric [OF assms(3)]
  note q = last_rvol [OF assms(5,4)]
  show ?thesis
    by (simp add: check_short_squeeze_risk_try_def c v l r q bind_err_def Let_def fl_gt_def)
qed

lemma check_short_squeeze_risk_try_missing:
  assumes "map_of (cols df) ''Close'' = None \<or> map_of (cols df) ''Volume'' = None"
  shows "\<exists>e. check_short_squeeze_risk_try L df = Inl e"
  using assms
  by (auto simp: check_short_squeeze_risk_try_def getitem_def bind_err_def Let_def
      split: option.splits)

lemma check_short_squeeze_risk_numeric:
  assumes "30 \<le> nrows df" and "map_of (cols df) ''Close'' = Some (map Fin cs)"
    and "map_of (cols df) ''Volume'' = Some v"
    and "length cs = nrows df" and "length v = nrows df"
    and "length (rolling_mean L 20 v) = nrows df"
  shows "status (check_short_squeeze_risk L df) =
           (if 31 \<le> nrows df \<and> resistance_excluding_current cs < last cs
               \<and> fl_gt (relative_volume L v) (Fin 2)
            then Warn else Pass)"
proof -
  have "v \<noteq> []"
    using assms(1,5) by auto
  then obtain r where "check_short_squeeze_risk_try L df = Inr r"
    and "status r = (if 31 \<le> length cs \<and> resistance_excluding_current cs < last cs
                 \<and> fl_gt (relative_volume L v) (Fin 2) then Warn else Pass)"
    using check_short_squeeze_risk_try_numeric [of df cs v L] assms by auto
  with assms show ?thesis
    by (simp add: check_short_squeeze_risk_def)
qed

text \<open>
  Claim C2. On a bar table of at least 30 bars with numeric closes, the short-squeeze
  evaluator returns Warn exactly when the last close exceeds the resistance (the 30-bar
  rolling maximum of the close shifted back one bar, that is the maximum close of the 30
  bars before the last one, absent while the table has only 30 bars) and the relative
  volume (the last volume divided by the 20-bar rolling mean volume at the last bar, as
  pandas computes them over the index of the table) exceeds 2; otherwise it returns Pass.
  With fewer than 30 bars, or when the close or the volume column is missing so that the
  computation raises, it returns Fail. In particular, on 30 flat bars (close 100, volume
  1000) followed by a bar with close 105 it returns Warn when the last volume is 3000 and
  Pass when it is 1000, on every library that has the rolling means 1100 and 1000 there,
  the quotient of 3000 by 1100 above 2 and the quotient of 1000 by 1000 equal to 1, as
  float64 has.
\<close>

theorem short_squeeze_breakout:
  "(nrows df < 30 \<longrightarrow> status (check_short_squeeze_risk L df) = Fail)
   \<and> (30 \<le> nrows df \<and>
        (map_of (cols df) ''Close'' = None \<or> map_of (cols df) ''Volume'' = None)
        \<longrightarrow> status (check_short_squeeze_risk L df) = Fail)
   \<and> (30 \<le> nrows df \<and> map_of (cols df) ''Close'' = Some (map Fin cs) \<and>
        map_of (cols df) ''Volume'' = Some v \<and>
        length cs = nrows df \<and> length v = nrows df \<and>
        length (rolling_mean L 20 v) = nrows df
        \<longrightarrow> status (check_short_squeeze_risk L df) =
              (if 31 \<le> nrows df \<and> resistance_excluding_current cs < last cs
                  \<and> fl_gt (relative_volume L v) (Fin 2)
               then Warn else Pass))
   \<and> (length (rolling_mean L 20 (map Fin (replicate 30 1000 @ [3000]))) = 31 \<and>
        last (rolling_mean L 20 (map Fin (replicate 30 1000 @ [3000]))) = Fin 1100 \<and>
        fl_gt (fdiv L (Fin 3000) (Fin 1100)) (Fin 2)
        \<longrightarrow> status (check_short_squeeze_risk L
                       (bars (replicate 30 100 @ [105]) (replicate 30 1000 @ [3000]))) = Warn)
   \<and> (length (rolling_mean L 20 (map Fin (replicate 30 1000 @ [1000]))) = 31 \<and>
        last (rolling_mean L 20 (map Fin (replicate 30 1000 @ [1000]))) = Fin 1000 \<and>
        fdiv L (Fin 1000) (Fin 1000) = Fin 1
        \<longrightarrow> status (check_short_squeeze_risk L
                       (bars (replicate 30 100 @ [105]) (replicate 30 1000 @ [1000]))) = Pass)"
proof (intro conjI impI)
  assume "nrows df < 30"
  then show "status (check_short_squeeze_risk L df) = Fail"
    by (simp add: check_short_squeeze_risk_def)
next
  assume a: "30 \<le> nrows df \<and>
        (map_of (cols df) ''Close'' = None \<or> map_of (cols df) ''Volume'' = None)"
  then obtain e where "check_short_squeeze_risk_try L df = Inl e"
    using check_short_squeeze_risk_try_missing by blast
  with a show "status (check_short_squeeze_risk L df) = Fail"
    by (simp add: check_short_squeeze_risk_def)
next
  assume "30 \<le> nrows df \<and> map_of (cols df) ''Close'' = Some (map Fin cs) \<and>
        map_of (cols df) ''Volume'' = Some v \<and>
        length cs = nrows df \<and> length v = nrows df \<and>
        length (rolling_mean L 20 v) = nrows df"
  then show "status (check_short_squeeze_risk L df) =
              (if 31 \<le> nrows df \<and> resistance_excluding_current cs < last cs
                  \<and> fl_gt (relative_volume L v) (Fin 2)
               then Warn else Pass)"
    by (simp add: check_short_squeeze_risk_numeric)
next
  let ?cs = "replicate 30 100 @ [105 :: real]"
  let ?v = "map Fin (replicate 30 1000 @ [3000])"
  let ?d = "bars ?cs (replicate 30 1000 @ [3000])"
  assume a: "length (rolling_mean L 20 ?v) = 31 \<and> last (rolling_mean L 20 ?v) = Fin 1100 \<and>
        fl_gt (fdiv L (Fin 3000) (Fin 1100)) (Fin 2)"
  have res: "resistance_excluding_current ?cs < last ?cs"
    by (simp add: resistance_excluding_current_def)
  have rv: "relative_volume L ?v = fdiv L (Fin 3000) (Fin 1100)"
    using a by (simp add: relative_volume_def)
  have "status (check_short_squeeze_risk L ?d) =
          (if 31 \<le> nrows ?d \<and> resistance_excluding_current ?cs < last ?cs
              \<and> fl_gt (relative_volume L ?v) (Fin 2)
           then Warn else Pass)"
    using a by (intro check_short_squeeze_risk_numeric) (simp_all add: bars_def)
  with a res rv show "status (check_short_squeeze_risk L ?d) = Warn"
    by (simp add: bars_def)
next
  let ?cs = "replicate 30 100 @ [105 :: real]"
  let ?v = "map Fin (replicate 30 1000 @ [1000])"
  let ?d = "bars ?cs (replicate 30 1000 @ [1000])"
  assume a: "length (rolling_mean L 20 ?v) = 31 \<and> last (rolling_mean L 20 ?v) = Fin 1000 \<and>
        fdiv L (Fin 1000) (Fin 1000) = Fin 1"
  have rv: "relative_volume L ?v = Fin 1"
    using a by (simp add: relative_volume_def)
  have "status (check_short_squeeze_risk L ?d) =
          (if 31 \<le> nrows ?d \<and> resistance_excluding_current ?cs < last ?cs
              \<and> fl_gt (relative_volume L ?v) (Fin 2)
           then Warn else Pass)"
    using a by (intro check_short_squeeze_risk_numeric) (simp_all add: bars_def)
  with rv show "status (check_short_squeeze_risk L ?d) = Pass"
    by (simp add: fl_gt_def)
qed

theorem short_squeeze_breakout_witness:
  "status (check_short_squeeze_risk exact_lib
             (bars (replicate 30 100 @ [105]) (replicate 30 1000 @ [3000]))) = Warn
   \<and> status (check_short_squeeze_risk exact_lib
               (bars (replicate 30 100 @ [105]) (replicate 30 1000 @ [1000]))) = Pass
   \<and> status (check_short_squeeze_risk exact_lib
               (bars (replicate 28 100 @ [105]) (replicate 28 1000 @ [3000]))) = Fail"
proof -
  let ?v1 = "map Fin (replicate 30 1000 @ [3000])"
  let ?v2 = "map Fin (replicate 30 1000 @ [1000])"
  let ?d3 = "bars (replicate 28 100 @ [105]) (replicate 28 1000 @ [3000])"
  have h1: "length (rolling_mean exact_lib 20 ?v1) = 31 \<and>
        last (rolling_mean exact_lib 20 ?v1) = Fin 1100 \<and>
        fl_gt (fdiv exact_lib (Fin 3000) (Fin 1100)) (Fin 2)"
    by code_simp
  have h2: "length (rolling_mean exact_lib 20 ?v2) = 31 \<and>
        last (rolling_mean exact_lib 20 ?v2) = Fin 1000 \<and>
        fdiv exact_lib (Fin 1000) (Fin 1000) = Fin 1"
    by code_simp
  have h3: "nrows ?d3 < 30"
    by (simp add: bars_def)
  note t = short_squeeze_breakout [where L = exact_lib]
  note t1 = t [THEN conjunct2, THEN conjunct2, THEN conjunct2, THEN conjunct1]
  note t2 = t [THEN conjunct2, THEN conjunct2, THEN conjunct2, THEN conjunct2]
  note t3 = short_squeeze_breakout [where L = exact_lib and df = ?d3, THEN conjunct1]
  have r1: "status (check_short_squeeze_risk exact_lib
             (bars (replicate 30 100 @ [105]) (replicate 30 1000 @ [3000]))) = Warn"
    using t1 h1 by (rule mp)
  have r2: "status (check_short_squeeze_risk exact_lib
             (bars (replicate 30 100 @ [105]) (replicate 30 1000 @ [1000]))) = Pass"
    using t2 h2 by (rule mp)
  have r3: "status (check_short_squeeze_risk exact_lib ?d3) = Fail"
    using t3 h3 by (rule mp)
  from r1 r2 r3 show ?thesis by (intro conjI)
qed

subsection \<open>Insufficient history\<close>

text \<open>
  Claim C6. On a bar table with fewer bars than the period, \<open>calculate_rsi\<close> returns the
  empty series, and on one with fewer bars than the slow span, \<open>get_macd\<close> returns a pair
  of empty series; neither raises.
\<close>

theorem indicators_empty_below_lookback:
  "(int (nrows df) < period \<longrightarrow> calculate_rsi L df period = Inr [])
   \<and> (int (nrows df) < slow \<longrightarrow> get_macd L df fast slow signal_period = Inr ([], []))"
  by (simp add: calculate_rsi_def get_macd_def)

theorem indicators_empty_below_lookback_witness:
  "calculate_rsi exact_lib (bars (replicate 13 10) (replicate 13 1000)) 14 = Inr []
   \<and> get_macd exact_lib (bars (replicate 25 10) (replicate 25 1000)) 12 26 9 = Inr ([], [])
   \<and> get_macd exact_lib empty_table 8 21 9 = Inr ([], [])"
proof -
  let ?d1 = "bars (replicate 13 10) (replicate 13 1000)"
  let ?d2 = "bars (replicate 25 10) (replicate 25 1000)"
  have h1: "int (nrows ?d1) < 14"
    by (simp add: bars_def)
  have h2: "int (nrows ?d2) < 26"
    by (simp add: bars_def)
  have h3: "int (nrows empty_table) < 21"
    by (simp add: empty_table_def)
  have r1: "calculate_rsi exact_lib ?d1 14 = Inr []"
    using indicators_empty_below_lookback
            [where L = exact_lib and df = ?d1 and period = 14, THEN conjunct1] h1
    by (rule mp)
  have r2: "get_macd exact_lib ?d2 12 26 9 = Inr ([], [])"
    using indicators_empty_below_lookback
            [where L = exact_lib and df = ?d2 and fast = 12 and slow = 26
               and signal_period = 9, THEN conjunct2] h2
    by (rule mp)
  have r3: "get_macd exact_lib empty_table 8 21 9 = Inr ([], [])"
    using indicators_empty_below_lookback
            [where L = exact_lib and df = empty_table and fast = 8 and slow = 21
               and signal_period = 9, THEN conjunct2] h3
    by (rule mp)
  from r1 r2 r3 show ?thesis by (intro conjI)
qed

subsection \<open>Statuses\<close>

lemma check_rsi_condition_status: "status (check_rsi_condition df) \<in> {Pass, Fail}"
  by (simp add: check_rsi_condition_def Let_def split: option.splits)

lemma check_macd_status: "status (check_macd_crossover_or_rising m s) \<in> {Pass, Fail}"
  by (simp add: check_macd_crossover_or_rising_def Let_def)

lemma check_dmi_trend_try_status:
  "check_dmi_trend_try adx df = Inr v \<Longrightarrow> status v \<in> {Pass, Fail}"
  by (auto simp: check_dmi_trend_try_def bind_err_def split: sum.splits if_splits prod.splits)

lemma check_dmi_trend_status: "status (check_dmi_trend adx df) \<in> {Pass, Fail}"
  using check_dmi_trend_try_status [of adx df]
  by (auto simp: check_dmi_trend_def split: sum.splits)

lemma check_ema_crossover_status:
  "returned_status (check_ema_crossover L df fast slow) \<in> {None, Some Pass, Some Fail}"
  by (auto simp: check_ema_crossover_def returned_status_def bind_err_def
      split: sum.splits if_splits)

text \<open>
  Claim C10. Every verdict has one of the three statuses, and the RSI confirmation, MACD
  crossover-or-rising, DMI trend and EMA crossover evaluators return only Pass or Fail
  (the EMA evaluator when it returns at all); Warn comes from the short-squeeze evaluator
  alone.
\<close>

theorem warn_only_from_short_squeeze:
  "status (check_rsi_condition df) \<in> {Pass, Fail}
   \<and> status (check_macd_crossover_or_rising m s) \<in> {Pass, Fail}
   \<and> status (check_dmi_trend adx df) \<in> {Pass, Fail}
   \<and> returned_status (check_ema_crossover L df fast slow) \<in> {None, Some Pass, Some Fail}
   \<and> status (check_short_squeeze_risk L df) \<in> {Pass, Warn, Fail}"
proof -
  have "status (check_short_squeeze_risk L df) \<in> {Pass, Warn, Fail}"
    by (cases "status (check_short_squeeze_risk L df)") simp_all
  then show ?thesis
    using check_rsi_condition_status check_macd_status check_dmi_trend_status
      check_ema_crossover_status
    by blast
qed

theorem warn_only_from_short_squeeze_witness:
  "status (check_rsi_condition two_bar_table) \<in> {Pass, Fail}
   \<and> status (check_macd_crossover_or_rising [Fin 1, Fin 2] [Fin 2, Fin 1]) \<in> {Pass, Fail}
   \<and> status (check_dmi_trend trending_adx two_bar_table) \<in> {Pass, Fail}
   \<and> returned_status (check_ema_crossover exact_lib two_bar_table 8 21)
       \<in> {None, Some Pass, Some Fail}
   \<and> status (check_short_squeeze_risk exact_lib two_bar_table) \<in> {Pass, Warn, Fail}"
  by (rule warn_only_from_short_squeeze)

subsection \<open>Evaluators and exceptions\<close>

text \<open>
  Claim C7. Every evaluator is to answer a malformed bar table with a Fail verdict that
  carries a message, and never to raise. On a table of 30 bars without a close column the
  DMI and the short-squeeze evaluators do so, catching the KeyError; the EMA crossover
  evaluator, which has no \<open>try\<close> block, raises the KeyError.
\<close>

theorem evaluators_on_table_without_close:
  "check_dmi_trend adx table_without_close =
     \<lparr>status = Fail, message = [Lit ''Error calculating DMI: '', Exc (KeyError ''Close'')],
      val = NoValue\<rparr>
   \<and> check_short_squeeze_risk L table_without_close =
     \<lparr>status = Fail,
      message = [Lit ''Error analyzing squeeze risk: '', Exc (KeyError ''Close'')],
      val = NoValue\<rparr>
   \<and> check_ema_crossover L table_without_close 8 21 = Inl (KeyError ''Close'')"
  by (simp add: check_dmi_trend_def check_dmi_trend_try_def check_short_squeeze_risk_def
      check_short_squeeze_risk_try_def check_ema_crossover_def table_without_close_def
      getitem_def bind_err_def)

subsection \<open>The passing view\<close>

lemma is_passing_passes: "dict_entries r \<Longrightarrow> is_passing r = Inr (passes r)"
proof (induction r)
  case Nil
  show ?case by (simp add: passes_def)
next
  case (Cons item r)
  obtain k e where item: "item = (k, e)"
    by (cases item)
  from Cons.prems have rest: "dict_entries r"
    by (simp add: dict_entries_def)
  have ih: "is_passing r = Inr (passes r)"
    using Cons.IH rest by simp
  have tail: "passes ((k, e) # r) =
      ((k \<notin> set metadata_keys \<and>
          (case e of VerdictEntry v \<Rightarrow> status v = Pass \<or> status v = Warn | _ \<Rightarrow> False))
       \<or> passes r)"
    by (simp add: passes_def)
  show ?case
  proof (cases "k \<in> set metadata_keys")
    case True
    then show ?thesis
      using ih by (simp add: item tail)
  next
    case False
    with Cons.prems have "case e of TextEntry s \<Rightarrow> False | _ \<Rightarrow> True"
      by (simp add: dict_entries_def item)
    then show ?thesis
      unfolding item tail using False ih by (cases e) (auto simp: bind_err_def)
  qed
qed

lemma passing_results_filter:
  "list_all dict_entries rs \<Longrightarrow> passing_results rs = Inr (filter passes rs)"
  by (induction rs) (simp_all add: is_passing_passes bind_err_def)

lemma passes_all_fail:
  assumes "\<forall>(k, e) \<in> set r. k \<notin> set metadata_keys \<longrightarrow> (\<exists>v. e = VerdictEntry v \<and> status v = Fail)"
  shows "dict_entries r \<and> \<not> passes r"
  using assms by (induction r) (auto simp: dict_entries_def passes_def)

lemma passes_one_warn:
  assumes "(k, VerdictEntry v) \<in> set r" "k \<notin> set metadata_keys" "status v = Warn"
  shows "passes r"
  using assms
  by (auto simp: passes_def list_ex_iff intro!: bexI [of _ "(k, VerdictEntry v)"])

lemma map_of_dict_set:
  "map_of (dict_set d k v) k' = (if k' = k then Some v else map_of d k')"
  by (induction d) auto

lemma dict_entries_dict_set:
  "dict_entries r \<Longrightarrow> dict_entries (dict_set r k (VerdictEntry v))"
  by (induction r) (auto simp: dict_entries_def)

lemma dict_entries_initial_result: "dict_entries (initial_result ticker asset_type cp)"
  by (simp add: dict_entries_def initial_result_def metadata_keys_def)

lemma bind_err_Inr:
  "bind_err m f = Inr y \<Longrightarrow> (\<And>x. m = Inr x \<Longrightarrow> f x = Inr y \<Longrightarrow> P) \<Longrightarrow> P"
  by (cases m) (simp_all add: bind_err_def)

lemma calculate_rsi_14: "\<exists>rsi. calculate_rsi L df 14 = Inr rsi"
  by (auto simp: calculate_rsi_def has_column_def getitem_def bind_err_def Let_def)

lemma analyze_ticker_dict_entries:
  assumes "analyze_ticker L adx src ticker asset_type data_df daily_df cp criteria = Inr (df', r)"
  shows "dict_entries r"
  using assms dict_entries_initial_result [of ticker asset_type cp]
  unfolding analyze_ticker_def Let_def
  by (auto elim!: bind_err_Inr split: if_splits prod.splits
      intro!: dict_entries_dict_set)

text \<open>
  Claim C5. The filter of the watchlist view keeps a result exactly when at least one of
  its entries under a key other than \<open>ticker\<close>, \<open>asset_type\<close> and \<open>current_price\<close> is a
  verdict with status Pass or Warn. This holds for every result whose criterion entries are
  verdicts, as every result of \<open>analyze_ticker\<close> is; a result whose criteria all failed is
  left out, and a result with a Warn among its criteria is kept.
\<close>

theorem composite_pass_filter:
  "(dict_entries r \<longrightarrow> is_passing r = Inr (passes r))
   \<and> (list_all dict_entries rs \<longrightarrow> passing_results rs = Inr (filter passes rs))
   \<and> ((\<forall>(k, e) \<in> set r. k \<notin> set metadata_keys \<longrightarrow>
          (\<exists>v. e = VerdictEntry v \<and> status v = Fail))
        \<longrightarrow> is_passing r = Inr False)
   \<and> (dict_entries r \<and> (k, VerdictEntry v) \<in> set r \<and> k \<notin> set metadata_keys \<and>
        status v = Warn \<longrightarrow> is_passing r = Inr True)
   \<and> (analyze_ticker L adx src ticker asset_type data_df daily_df cp criteria = Inr (df', ar)
        \<longrightarrow> is_passing ar = Inr (passes ar))"
proof (intro conjI impI)
  assume "dict_entries r"
  then show "is_passing r = Inr (passes r)"
    by (rule is_passing_passes)
next
  assume "list_all dict_entries rs"
  then show "passing_results rs = Inr (filter passes rs)"
    by (rule passing_results_filter)
next
  assume "\<forall>(k, e) \<in> set r. k \<notin> set metadata_keys \<longrightarrow>
          (\<exists>v. e = VerdictEntry v \<and> status v = Fail)"
  then have "dict_entries r \<and> \<not> passes r"
    by (rule passes_all_fail)
  then show "is_passing r = Inr False"
    by (simp add: is_passing_passes)
next
  assume a: "dict_entries r \<and> (k, VerdictEntry v) \<in> set r \<and> k \<notin> set metadata_keys \<and>
        status v = Warn"
  then have "passes r"
    using passes_one_warn by blast
  with a show "is_passing r = Inr True"
    by (simp add: is_passing_passes)
next
  assume "analyze_ticker L adx src ticker asset_type data_df daily_df cp criteria = Inr (df', ar)"
  then have "dict_entries ar"
    by (rule analyze_ticker_dict_entries)
  then show "is_passing ar = Inr (passes ar)"
    by (rule is_passing_passes)
qed

theorem composite_pass_filter_witness:
  "is_passing all_fail_result = Inr False
   \<and> is_passing one_warn_result = Inr True
   \<and> passing_results [all_fail_result, one_warn_result] = Inr [one_warn_result]"
proof -
  let ?w = "\<lparr>status = Warn,
             message = [Lit (''Potential short squeeze risk detected! Price broke ''
                             @ ''resistance on high relative volume (RVOL: ''),
                        Fmt2 (Fin 2.73), Lit '')''],
             val = Fields [(''rvol'', Fin 2.73), (''resistance'', Fin 100),
                           (''price'', Fin 105)]\<rparr>"
  have h1: "\<forall>(k, e) \<in> set all_fail_result. k \<notin> set metadata_keys \<longrightarrow>
          (\<exists>v. e = VerdictEntry v \<and> status v = Fail)"
    by (simp add: all_fail_result_def metadata_keys_def)
  have d1: "dict_entries all_fail_result"
    by (simp add: dict_entries_def all_fail_result_def metadata_keys_def)
  have d2: "dict_entries one_warn_result"
    by (simp add: dict_entries_def one_warn_result_def metadata_keys_def)
  have h2: "dict_entries one_warn_result \<and> (''avoid_squeeze'', VerdictEntry ?w) \<in> set one_warn_result
        \<and> ''avoid_squeeze'' \<notin> set metadata_keys \<and> status ?w = Warn"
    using d2 by (simp add: one_warn_result_def metadata_keys_def)
  have h3: "list_all dict_entries [all_fail_result, one_warn_result]"
    using d1 d2 by simp
  note t1 = composite_pass_filter
              [where r = all_fail_result and rs = "[all_fail_result, one_warn_result]"]
  note t2 = composite_pass_filter
              [where r = one_warn_result and k = "''avoid_squeeze''" and v = ?w]
  have r1: "is_passing all_fail_result = Inr False"
    using t1 [THEN conjunct2, THEN conjunct2, THEN conjunct1] h1 by (rule mp)
  have r2: "is_passing one_warn_result = Inr True"
    using t2 [THEN conjunct2, THEN conjunct2, THEN conjunct2, THEN conjunct1] h2 by (rule mp)
  have "passing_results [all_fail_result, one_warn_result]
        = Inr (filter passes [all_fail_result, one_warn_result])"
    using t1 [THEN conjunct2, THEN conjunct1] h3 by (rule mp)
  moreover have "\<not> passes all_fail_result"
    using passes_all_fail [OF h1] by simp
  moreover have "passes one_warn_result"
    using h2 passes_one_warn by blast
  ultimately have r3: "passing_results [all_fail_result, one_warn_result] = Inr [one_warn_result]"
    by simp
  from r1 r2 r3 show ?thesis by (intro conjI)
qed

subsection \<open>Ticker analysis\<close>

lemma analyze_ticker_not_stock:
  assumes "asset_type \<noteq> ''Stock''"
  shows "analyze_ticker L adx src ticker asset_type data_df daily_df cp criteria =
     (if \<not> df_empty data_df \<and> enabled criteria ''rsi_confirmation''
      then bind_err (calculate_rsi L data_df 14) (\<lambda>rsi.
             Inr (set_column data_df ''RSI'' rsi,
                  dict_set (initial_result ticker asset_type cp) ''rsi_confirmation''
                    (VerdictEntry (check_rsi_condition (set_column data_df ''RSI'' rsi)))))
      else Inr (data_df, initial_result ticker asset_type cp))"
  using assms calculate_rsi_14 [of L data_df]
  by (auto simp: analyze_ticker_def Let_def bind_err_def)

lemma initial_result_keys:
  "k \<notin> set metadata_keys \<Longrightarrow> map_of (initial_result ticker asset_type cp) k = None"
  by (simp add: initial_result_def metadata_keys_def)

text \<open>
  Claim C4. For an Option, \<open>analyze_ticker\<close> returns a result without an entry for any of
  \<open>dmi_confirmation\<close>, \<open>ema_crossover\<close>, \<open>macd_crossover\<close>, \<open>weekly_macd\<close>, \<open>avoid_squeeze\<close>
  and \<open>next_earning_date\<close>, whatever flags are set; the RSI confirmation is not skipped:
  with its flag set and a non-empty long series the result holds its verdict.
\<close>

theorem option_skips_stock_only_criteria:
  "\<exists>df' r. analyze_ticker L adx src ticker ''Option'' data_df daily_df cp criteria = Inr (df', r)
     \<and> (\<forall>k \<in> set stock_only_keys. map_of r k = None)
     \<and> (enabled criteria ''rsi_confirmation'' \<and> \<not> df_empty data_df \<longrightarrow>
          map_of r ''rsi_confirmation'' = Some (VerdictEntry (check_rsi_condition df')))"
proof -
  have ns: "''Option'' \<noteq> ''Stock''"
    by simp
  obtain rsi where rsi: "calculate_rsi L data_df 14 = Inr rsi"
    using calculate_rsi_14 by blast
  have keys: "\<forall>k \<in> set stock_only_keys. k \<notin> set metadata_keys \<and> k \<noteq> ''rsi_confirmation''"
    by (simp add: stock_only_keys_def metadata_keys_def)
  show ?thesis
  proof (cases "\<not> df_empty data_df \<and> enabled criteria ''rsi_confirmation''")
    case True
    then have "analyze_ticker L adx src ticker ''Option'' data_df daily_df cp criteria =
        Inr (set_column data_df ''RSI'' rsi,
             dict_set (initial_result ticker ''Option'' cp) ''rsi_confirmation''
               (VerdictEntry (check_rsi_condition (set_column data_df ''RSI'' rsi))))"
      by (simp add: analyze_ticker_not_stock [OF ns] rsi bind_err_def)
    then show ?thesis
      using keys by (auto simp: map_of_dict_set initial_result_keys)
  next
    case False
    have "analyze_ticker L adx src ticker ''Option'' data_df daily_df cp criteria =
        Inr (data_df, initial_result ticker ''Option'' cp)"
      unfolding analyze_ticker_not_stock [OF ns] using False by auto
    then show ?thesis
      using keys False by (auto simp: initial_result_keys)
  qed
qed

theorem option_skips_stock_only_criteria_witness:
  "enabled all_criteria ''rsi_confirmation'' \<and> \<not> df_empty two_bar_table
   \<and> (\<exists>df' r. analyze_ticker exact_lib trending_adx no_earnings ''SPY'' ''Option'' two_bar_table
                  two_bar_table None all_criteria = Inr (df', r)
          \<and> map_of r ''dmi_confirmation'' = None \<and> map_of r ''ema_crossover'' = None
          \<and> map_of r ''macd_crossover'' = None \<and> map_of r ''weekly_macd'' = None
          \<and> map_of r ''avoid_squeeze'' = None \<and> map_of r ''next_earning_date'' = None
          \<and> map_of r ''rsi_confirmation'' = Some (VerdictEntry (check_rsi_condition df')))"
proof -
  have h: "enabled all_criteria ''rsi_confirmation'' \<and> \<not> df_empty two_bar_table"
    by (simp add: enabled_def all_criteria_def df_empty_def two_bar_table_def)
  obtain df' r where
    a: "analyze_ticker exact_lib trending_adx no_earnings ''SPY'' ''Option'' two_bar_table two_bar_table
          None all_criteria = Inr (df', r)"
    and k: "\<forall>k \<in> set stock_only_keys. map_of r k = None"
    and i: "enabled all_criteria ''rsi_confirmation'' \<and> \<not> df_empty two_bar_table \<longrightarrow>
          map_of r ''rsi_confirmation'' = Some (VerdictEntry (check_rsi_condition df'))"
    using option_skips_stock_only_criteria
            [where L = exact_lib and adx = trending_adx and src = no_earnings
               and ticker = "''SPY''" and data_df = two_bar_table and daily_df = two_bar_table
               and cp = None and criteria = all_criteria]
    by blast
  from i h have "map_of r ''rsi_confirmation'' = Some (VerdictEntry (check_rsi_condition df'))"
    by (rule mp)
  moreover from k have "map_of r ''dmi_confirmation'' = None \<and> map_of r ''ema_crossover'' = None
          \<and> map_of r ''macd_crossover'' = None \<and> map_of r ''weekly_macd'' = None
          \<and> map_of r ''avoid_squeeze'' = None \<and> map_of r ''next_earning_date'' = None"
    by (simp add: stock_only_keys_def)
  ultimately show ?thesis
    using h a by blast
qed

lemma analyze_ticker_empty:
  assumes "df_empty data_df"
  shows "analyze_ticker L adx src ticker asset_type data_df daily_df cp criteria =
     Inr (data_df,
          if enabled criteria ''next_earning_date'' \<and> asset_type = ''Stock''
          then dict_set (initial_result ticker asset_type cp) ''next_earning_date''
                 (VerdictEntry (earnings_verdict (src ticker)))
          else initial_result ticker asset_type cp)"
  using assms by (simp add: analyze_ticker_def Let_def bind_err_def)

lemma analyze_empty_stock:
  "analyze_ticker exact_lib trending_adx no_earnings ''AAPL'' ''Stock'' empty_table empty_table None
     indicator_criteria =
   Inr (empty_table,
        [(''ticker'', TextEntry ''AAPL''), (''asset_type'', TextEntry ''Stock''),
         (''current_price'', PriceEntry None [Lit ''N/A''])])"
  by code_simp

text \<open>
  Claim C8 expects every enabled indicator criterion to be reported as Fail when the long
  bar series is empty. The analysis of a Stock with empty series and every indicator flag
  set returns the three metadata entries only: no criterion is reported.
\<close>

theorem empty_long_series_counterexample:
  "enabled indicator_criteria ''rsi_confirmation''
   \<and> df_empty empty_table
   \<and> analyze_ticker exact_lib trending_adx no_earnings ''AAPL'' ''Stock'' empty_table empty_table None
       indicator_criteria =
     Inr (empty_table,
          [(''ticker'', TextEntry ''AAPL''), (''asset_type'', TextEntry ''Stock''),
           (''current_price'', PriceEntry None [Lit ''N/A''])])"
  using analyze_empty_stock
  by (simp add: enabled_def indicator_criteria_def df_empty_def empty_table_def)

text \<open>
  Claim C8, amended. When the long bar series is empty, \<open>analyze_ticker\<close> does not raise
  and returns a result for the ticker, with the table untouched; the result reports no
  indicator criterion at all, whatever flags are set. It holds the metadata entries and,
  for a Stock with the \<open>next_earning_date\<close> flag set, the earnings verdict.
\<close>

theorem empty_long_series_reports_no_indicator:
  assumes "df_empty data_df"
  shows "\<exists>r. analyze_ticker L adx src ticker asset_type data_df daily_df cp criteria
               = Inr (data_df, r)
     \<and> (\<forall>k \<in> set indicator_keys. map_of r k = None)
     \<and> r = (if enabled criteria ''next_earning_date'' \<and> asset_type = ''Stock''
            then dict_set (initial_result ticker asset_type cp) ''next_earning_date''
                   (VerdictEntry (earnings_verdict (src ticker)))
            else initial_result ticker asset_type cp)"
proof -
  have keys: "\<forall>k \<in> set indicator_keys. k \<notin> set metadata_keys \<and> k \<noteq> ''next_earning_date''"
    by (simp add: indicator_keys_def metadata_keys_def)
  show ?thesis
    using keys by (auto simp: analyze_ticker_empty [OF assms] map_of_dict_set initial_result_keys)
qed

theorem empty_long_series_reports_no_indicator_witness:
  "df_empty empty_table
   \<and> analyze_ticker exact_lib trending_adx no_earnings ''AAPL'' ''Stock'' empty_table empty_table None
       all_criteria =
     Inr (empty_table,
          dict_set (initial_result ''AAPL'' ''Stock'' None) ''next_earning_date''
            (VerdictEntry (earnings_verdict (no_earnings ''AAPL''))))"
proof -
  have h: "df_empty empty_table"
    by (simp add: df_empty_def empty_table_def)
  have e: "enabled all_criteria ''next_earning_date''"
    by (simp add: enabled_def all_criteria_def)
  from empty_long_series_reports_no_indicator
         [OF h, where L = exact_lib and adx = trending_adx and src = no_earnings
            and ticker = "''AAPL''" and asset_type = "''Stock''" and daily_df = empty_table
            and cp = None and criteria = all_criteria]
  obtain r where
    "analyze_ticker exact_lib trending_adx no_earnings ''AAPL'' ''Stock'' empty_table empty_table None
       all_criteria = Inr (empty_table, r)"
    and "r = (if enabled all_criteria ''next_earning_date'' \<and> ''Stock'' = ''Stock''
            then dict_set (initial_result ''AAPL'' ''Stock'' None) ''next_earning_date''
                   (VerdictEntry (earnings_verdict (no_earnings ''AAPL'')))
            else initial_result ''AAPL'' ''Stock'' None)"
    by blast
  with h e show ?thesis by simp
qed

lemma set_column_frame:
  "nrows (set_column df name s) = nrows df
   \<and> (\<forall>c. c \<noteq> name \<longrightarrow> map_of (cols (set_column df name s)) c = map_of (cols df) c)"
  by (simp add: set_column_def map_of_dict_set)

lemma analyze_ticker_frame:
  assumes "analyze_ticker L adx src ticker asset_type data_df daily_df cp criteria = Inr (df', r)"
  shows "df' = (if \<not> df_empty data_df \<and> enabled criteria ''rsi_confirmation''
                then set_column data_df ''RSI'' (projr (calculate_rsi L data_df 14))
                else data_df)"
  using assms calculate_rsi_14 [of L data_df]
  unfolding analyze_ticker_def Let_def
  by (auto elim!: bind_err_Inr split: if_splits prod.splits)

lemma analyze_two_bar_option:
  "analyze_ticker exact_lib trending_adx no_earnings ''SPY'' ''Option'' two_bar_table two_bar_table None
     all_criteria =
   Inr (\<lparr>nrows = 2, cols = [(''Close'', [Fin 10, Fin 11]), (''RSI'', [NaN, NaN])]\<rparr>,
        [(''ticker'', TextEntry ''SPY''), (''asset_type'', TextEntry ''Option''),
         (''current_price'', PriceEntry None [Lit ''N/A'']),
         (''rsi_confirmation'',
          VerdictEntry \<lparr>status = Fail, message = [Lit ''Not enough RSI data''],
                        val = NoValue\<rparr>)])"
  by code_simp

text \<open>
  Claim C9 expects the analysis to leave its input table as it was. The analysis of a table
  of two bars with the RSI flag set leaves the table with a new column \<open>RSI\<close>.
\<close>

theorem analysis_adds_rsi_column_counterexample:
  "map_of (cols two_bar_table) ''RSI'' = None
   \<and> analyze_ticker exact_lib trending_adx no_earnings ''SPY'' ''Option'' two_bar_table two_bar_table None
       all_criteria =
     Inr (\<lparr>nrows = 2, cols = [(''Close'', [Fin 10, Fin 11]), (''RSI'', [NaN, NaN])]\<rparr>,
          [(''ticker'', TextEntry ''SPY''), (''asset_type'', TextEntry ''Option''),
           (''current_price'', PriceEntry None [Lit ''N/A'']),
           (''rsi_confirmation'',
            VerdictEntry \<lparr>status = Fail, message = [Lit ''Not enough RSI data''],
                          val = NoValue\<rparr>)])"
  using analyze_two_bar_option by (simp add: two_bar_table_def)

text \<open>
  Claim C9, amended. Whenever \<open>analyze_ticker\<close> returns, the long bar table has its number
  of rows and every column other than \<open>RSI\<close> unchanged. The table is unchanged altogether
  when it is empty or the \<open>rsi_confirmation\<close> flag is not set; otherwise its \<open>RSI\<close> column
  has been set to the series \<open>calculate_rsi\<close> returns on it.
\<close>

theorem analysis_changes_rsi_column_only:
  assumes "analyze_ticker L adx src ticker asset_type data_df daily_df cp criteria = Inr (df', r)"
  shows "nrows df' = nrows data_df
     \<and> (\<forall>c. c \<noteq> ''RSI'' \<longrightarrow> map_of (cols df') c = map_of (cols data_df) c)
     \<and> (df_empty data_df \<or> \<not> enabled criteria ''rsi_confirmation'' \<longrightarrow> df' = data_df)
     \<and> (\<not> df_empty data_df \<and> enabled criteria ''rsi_confirmation'' \<longrightarrow>
          (\<exists>rsi. calculate_rsi L data_df 14 = Inr rsi \<and> df' = set_column data_df ''RSI'' rsi))"
  using analyze_ticker_frame [OF assms] calculate_rsi_14 [of L data_df]
    set_column_frame [of data_df "''RSI''"]
  by (auto split: if_splits)

theorem analysis_changes_rsi_column_only_witness:
  "analyze_ticker exact_lib trending_adx no_earnings ''SPY'' ''Option'' two_bar_table two_bar_table None
     all_criteria =
   Inr (\<lparr>nrows = 2, cols = [(''Close'', [Fin 10, Fin 11]), (''RSI'', [NaN, NaN])]\<rparr>,
        [(''ticker'', TextEntry ''SPY''), (''asset_type'', TextEntry ''Option''),
         (''current_price'', PriceEntry None [Lit ''N/A'']),
         (''rsi_confirmation'',
          VerdictEntry \<lparr>status = Fail, message = [Lit ''Not enough RSI data''],
                        val = NoValue\<rparr>)])
   \<and> nrows \<lparr>nrows = 2, cols = [(''Close'', [Fin 10, Fin 11]), (''RSI'', [NaN, NaN])]\<rparr>
       = nrows two_bar_table
   \<and> map_of (cols \<lparr>nrows = 2, cols = [(''Close'', [Fin 10, Fin 11]), (''RSI'', [NaN, NaN])]\<rparr>)
         ''Close''
       = map_of (cols two_bar_table) ''Close''"
proof -
  note a = analyze_two_bar_option
  note t = analysis_changes_rsi_column_only [OF a]
  from t have n: "nrows \<lparr>nrows = 2, cols = [(''Close'', [Fin 10, Fin 11]), (''RSI'', [NaN, NaN])]\<rparr>
       = nrows two_bar_table"
    by (rule conjunct1)
  from t have "\<forall>c. c \<noteq> ''RSI'' \<longrightarrow>
      map_of (cols \<lparr>nrows = 2, cols = [(''Close'', [Fin 10, Fin 11]), (''RSI'', [NaN, NaN])]\<rparr>) c
        = map_of (cols two_bar_table) c"
    by (elim conjE)
  then have "''Close'' \<noteq> ''RSI'' \<longrightarrow>
      map_of (cols \<lparr>nrows = 2, cols = [(''Close'', [Fin 10, Fin 11]), (''RSI'', [NaN, NaN])]\<rparr>)
        ''Close'' = map_of (cols two_bar_table) ''Close''"
    by (rule spec)
  moreover have "''Close'' \<noteq> ''RSI''"
    by simp
  ultimately have c: "map_of (cols \<lparr>nrows = 2, cols = [(''Close'', [Fin 10, Fin 11]),
        (''RSI'', [NaN, NaN])]\<rparr>) ''Close'' = map_of (cols two_bar_table) ''Close''"
    by (rule mp)
  from a n c show ?thesis by (intro conjI)
qed

end
